theory Spec2Isabelle
  imports Main "HOL-Library.Char_ord" "HOL-Library.List_Lexorder" "HOL-Library.Monad_Syntax"
begin

section \<open>Strings as the program uses them\<close>

text \<open>
  Python \<open>str\<close> values are modelled as \<open>string\<close> (lists of 8-bit characters).
  Case folding, whitespace and the regular-expression classes \<open>\w\<close> and \<open>\d\<close> are
  modelled on the ASCII range, where they are exact; a character outside ASCII is matched
  only by itself. Python also folds the case of letters outside ASCII, strips whitespace
  outside ASCII (such as U+0085 and U+00A0) and counts letters and digits outside ASCII
  as word characters: on text with such characters the functions below can differ from
  the program.
\<close>

text \<open>
  Character classes are given by their members, so that they evaluate by equality of
  characters alone.
\<close>

definition upper_chars :: string where
  "upper_chars = ''ABCDEFGHIJKLMNOPQRSTUVWXYZ''"

definition lower_chars :: string where
  "lower_chars = ''abcdefghijklmnopqrstuvwxyz''"

definition digit_chars :: string where
  "digit_chars = ''0123456789''"

definition is_digit :: "char \<Rightarrow> bool" where
  "is_digit c = (c \<in> set digit_chars)"

text \<open>The class \<open>\w\<close>: letters, digits and the underscore.\<close>

definition is_word_char :: "char \<Rightarrow> bool" where
  "is_word_char c = (c \<in> set (upper_chars @ lower_chars @ digit_chars @ ''_''))"

text \<open>\<open>str.isspace\<close> on ASCII: tab, line feed, VT, FF, CR, the separators 28..31, space.\<close>

definition is_space :: "char \<Rightarrow> bool" where
  "is_space c = (c \<in> set [CHR 0x09, CHR 0x0A, CHR 0x0B, CHR 0x0C, CHR 0x0D,
                            CHR 0x1C, CHR 0x1D, CHR 0x1E, CHR 0x1F, CHR 0x20])"

text \<open>The lower-case form of a character: \<open>A\<close>..\<open>Z\<close> go to \<open>a\<close>..\<open>z\<close>.\<close>

definition lower :: "char \<Rightarrow> char" where
  "lower c = (case map_of (zip upper_chars lower_chars) c of Some l \<Rightarrow> l | None \<Rightarrow> c)"

text \<open>\<open>s.strip()\<close>: leading and trailing whitespace removed.\<close>

definition strip :: "string \<Rightarrow> string" where
  "strip s = rev (dropWhile is_space (rev (dropWhile is_space s)))"

text \<open>\<open>sep.join(parts)\<close>.\<close>

fun join :: "string \<Rightarrow> string list \<Rightarrow> string" where
  "join sep [] = []"
| "join sep [p] = p"
| "join sep (p # q # ps) = p @ sep @ join sep (q # ps)"

text \<open>\<open>needle in haystack\<close> for strings: some suffix of the haystack starts with the needle.\<close>

fun starts_with :: "string \<Rightarrow> string \<Rightarrow> bool" where
  "starts_with [] s = True"
| "starts_with (p # ps) [] = False"
| "starts_with (p # ps) (c # cs) = (p = c \<and> starts_with ps cs)"

fun contains :: "string \<Rightarrow> string \<Rightarrow> bool" where
  "contains needle [] = (needle = [])"
| "contains needle (c # cs) = (starts_with needle (c # cs) \<or> contains needle cs)"

text \<open>
  The same with \<open>re.IGNORECASE\<close>: the pattern \<open>re.escape(word)\<close> matches at the head of
  the text when every character agrees up to case.
\<close>

fun match_ci :: "string \<Rightarrow> string \<Rightarrow> bool" where
  "match_ci [] s = True"
| "match_ci (p # ps) [] = False"
| "match_ci (p # ps) (c # cs) = (lower p = lower c \<and> match_ci ps cs)"

fun contains_ci :: "string \<Rightarrow> string \<Rightarrow> bool" where
  "contains_ci needle [] = (needle = [])"
| "contains_ci needle (c # cs) = (match_ci needle (c # cs) \<or> contains_ci needle cs)"

subsection \<open>Regular-expression substitution by the empty string\<close>

text \<open>
  \<open>re.sub(pattern, '', s)\<close> scans \<open>s\<close> from the left. A matcher gives the length of the
  match of the pattern at the head of its argument, if there is one. A non-empty match is
  cut out and the scan continues behind it; where there is no match, or only the empty
  match, the character is kept and the scan moves one character on.
\<close>

function re_sub_empty :: "(string \<Rightarrow> nat option) \<Rightarrow> string \<Rightarrow> string" where
  "re_sub_empty m [] = []"
| "re_sub_empty m (c # cs) =
     (case m (c # cs) of
        None \<Rightarrow> c # re_sub_empty m cs
      | Some 0 \<Rightarrow> c # re_sub_empty m cs
      | Some (Suc n) \<Rightarrow> re_sub_empty m (drop n cs))"
  by pat_completeness auto
termination
  by (relation "measure (\<lambda>(m, s). length s)") auto

subsection \<open>The patterns of the program\<close>

text \<open>
  Pieces of a pattern consume a prefix of the text and give the rest. None of the
  patterns below needs backtracking: each repeated class is followed by a character
  outside the class.
\<close>

definition eat :: "char \<Rightarrow> string \<Rightarrow> string option" where
  "eat c s = (case s of [] \<Rightarrow> None | x # xs \<Rightarrow> if x = c then Some xs else None)"

definition eat_opt :: "char \<Rightarrow> string \<Rightarrow> string" where
  "eat_opt c s = (case eat c s of None \<Rightarrow> s | Some r \<Rightarrow> r)"

definition eat_many1 :: "(char \<Rightarrow> bool) \<Rightarrow> string \<Rightarrow> string option" where
  "eat_many1 p s = (if takeWhile p s = [] then None else Some (dropWhile p s))"

definition matched :: "string \<Rightarrow> string option \<Rightarrow> nat option" where
  "matched s r = map_option (\<lambda>rest. length s - length rest) r"

text \<open>The pattern \<open>re.escape(word)\<close> under \<open>re.IGNORECASE\<close>.\<close>

definition match_word :: "string \<Rightarrow> string \<Rightarrow> nat option" where
  "match_word word s = (if match_ci word s then Some (length word) else None)"

text \<open>The pattern \<open><a?:\w+:\d+>\<close> (custom emojis), line 90.\<close>

definition match_emoji :: "string \<Rightarrow> nat option" where
  "match_emoji s =
     matched s (eat CHR ''<'' s \<bind> (\<lambda>r. eat CHR '':'' (eat_opt CHR ''a'' r))
                \<bind> eat_many1 is_word_char \<bind> eat CHR '':''
                \<bind> eat_many1 is_digit \<bind> eat CHR ''>'')"

text \<open>The pattern \<open><@!?\d+>|<@&\d+>|<#\d+>\<close> (mentions), line 91: the first alternative that matches.\<close>

definition match_mention :: "string \<Rightarrow> nat option" where
  "match_mention s =
     (let user = eat CHR ''<'' s \<bind> eat CHR ''@'' \<bind> (\<lambda>r. eat_many1 is_digit (eat_opt CHR ''!'' r))
                   \<bind> eat CHR ''>'';
          role = eat CHR ''<'' s \<bind> eat CHR ''@'' \<bind> eat CHR ''&'' \<bind> eat_many1 is_digit
                   \<bind> eat CHR ''>'';
          channel = eat CHR ''<'' s \<bind> eat CHR ''#'' \<bind> eat_many1 is_digit \<bind> eat CHR ''>''
      in matched s (case user of Some r \<Rightarrow> Some r
                    | None \<Rightarrow> (case role of Some r \<Rightarrow> Some r | None \<Rightarrow> channel)))"

text \<open>The class \<open>[*_~`|]\<close>, line 92.\<close>

definition markup_chars :: string where
  "markup_chars = [CHR ''*'', CHR ''_'', CHR ''~'', CHR 0x60, CHR ''|'']"

definition nl :: string where
  "nl = [CHR 0x0A]"

text \<open>Decimal digits of a number, as an f-string prints it.\<close>

fun str_nat :: "nat \<Rightarrow> string" where
  "str_nat n = (if n < 10 then [digit_chars ! n] else str_nat (n div 10) @ [digit_chars ! (n mod 10)])"

section \<open>Data model\<close>

text \<open>A chat or thread identifier of the configuration: a JSON number, string or null.\<close>

datatype json_id = IdNum int | IdStr string | IdNull

text \<open>
  The fields of a fetched message that the program reads. An optional field is \<open>None\<close>
  where the key is absent; an absent list is the empty list.
\<close>

record attachment =
  att_url :: string
  att_content_type :: "string option"

record embed_field =
  fld_name :: "string option"
  fld_value :: "string option"

record embed =
  emb_title :: "string option"
  emb_description :: "string option"
  emb_fields :: "embed_field list"

record message =
  msg_id :: string
  msg_timestamp :: string
  msg_content :: "string option"
  msg_embeds :: "embed list"
  msg_attachments :: "attachment list"

text \<open>The upload history: item key (message id or attachment URL) to the time it was recorded.\<close>

type_synonym history = "string \<rightharpoonup> string"

text \<open>
  A \<open>datetime\<close>: its wall-clock reading in microseconds, and the offset from UTC in
  microseconds when it is aware (\<open>None\<close> for a naive value).
\<close>

record datetime =
  dt_wall :: int
  dt_tzinfo :: "int option"

text \<open>One entry of the \<open>media\<close> list of a media group, lines 119-122.\<close>

record media_item =
  mi_type :: string
  mi_media :: string
  mi_caption :: "string option"
  mi_parse_mode :: "string option"

text \<open>The three calls of the Telegram Bot API, lines 127, 130 and 133, with their payload.\<close>

datatype request =
    SendMediaGroup json_id json_id "media_item list"
  | SendPhoto json_id json_id string "string option"
  | SendMessage json_id json_id string

text \<open>What the program does to the outside, in the order it does it.\<close>

datatype event =
    Log string string
  | HttpGet string
  | HttpPost request
  | ReadHistory
  | WriteHistory
  | Sleep nat

text \<open>
  The world the program runs in: the content of \<open>upload_history.json\<close> (\<open>None\<close> when the
  file is missing or not valid JSON), the clock in microseconds of UTC, and the trace.
  The clock moves when the program sleeps; writing the file does not fail.
\<close>

record world =
  disk :: "history option"
  clock :: int
  events :: "event list"

text \<open>
  The configuration and the collaborators outside the repository. \<open>discord_get\<close> is the
  GET of line 78 with \<open>raise_for_status\<close> and \<open>json\<close>: \<open>Inl e\<close> is a
  \<open>RequestException\<close> with text \<open>e\<close>. \<open>telegram_post\<close> is \<open>requests.post\<close>: \<open>Some e\<close>
  is a \<open>RequestException\<close>, \<open>None\<close> a response (of any status: the program does not
  look at it). \<open>fromisoformat\<close> is \<open>datetime.fromisoformat\<close>, \<open>None\<close> its
  \<open>ValueError\<close>; \<open>isoformat\<close> prints a UTC clock reading; \<open>local_utcoffset\<close> is
  the offset of local time. \<open>MESSAGE_WINDOW_HOURS\<close> is modelled as an integer number of
  hours that \<open>timedelta\<close> accepts (below 24 000 000 000 in size); a fractional
  window and the \<open>OverflowError\<close> of a larger one are outside the model.
\<close>

record env =
  DISCORD_BOT_TOKEN :: "string option"
  TELEGRAM_BOT_TOKEN :: "string option"
  CHANNEL_MAPPING :: "(string \<times> json_id \<times> json_id) list"
  FILTER_WORDS :: "string list"
  MESSAGE_WINDOW_HOURS :: int
  discord_get :: "string \<Rightarrow> string + message list"
  telegram_post :: "request \<Rightarrow> string option"
  fromisoformat :: "string \<Rightarrow> datetime option"
  isoformat :: "int \<Rightarrow> string"
  local_utcoffset :: int

definition REQUEST_DELAY :: nat where
  "REQUEST_DELAY = 3"

section \<open>Logging, history file, clock\<close>

text \<open>\<open>log(message, level)\<close>, lines 38-41: the printed line, without its time stamp.\<close>

definition log :: "string \<Rightarrow> string \<Rightarrow> world \<Rightarrow> world" where
  "log message level w = w\<lparr>events := events w @ [Log message level]\<rparr>"

text \<open>\<open>load_upload_history()\<close>, lines 51-57.\<close>

definition load_upload_history :: "world \<Rightarrow> history \<times> world" where
  "load_upload_history w =
     ((case disk w of None \<Rightarrow> Map.empty | Some h \<Rightarrow> h), w\<lparr>events := events w @ [ReadHistory]\<rparr>)"

text \<open>\<open>save_upload_history(history)\<close>, lines 59-62: the file is overwritten.\<close>

definition save_upload_history :: "history \<Rightarrow> world \<Rightarrow> world" where
  "save_upload_history history w = w\<lparr>disk := Some history, events := events w @ [WriteHistory]\<rparr>"

text \<open>\<open>time.sleep(seconds)\<close>.\<close>

definition sleep :: "nat \<Rightarrow> world \<Rightarrow> world" where
  "sleep seconds w =
     w\<lparr>clock := clock w + int seconds * 1000000, events := events w @ [Sleep seconds]\<rparr>"

text \<open>\<open>datetime.now(tz)\<close>: local time when \<open>tz\<close> is \<open>None\<close>, else the time at that offset.\<close>

definition datetime_now :: "env \<Rightarrow> world \<Rightarrow> int option \<Rightarrow> datetime" where
  "datetime_now env w tz =
     \<lparr>dt_wall = clock w + (case tz of None \<Rightarrow> local_utcoffset env | Some off \<Rightarrow> off),
      dt_tzinfo = tz\<rparr>"

text \<open>
  \<open>a - b\<close> on two datetimes of the same kind, in microseconds: of the wall-clock readings
  for naive values, of the instants for aware ones.
\<close>

definition utc_instant :: "datetime \<Rightarrow> int" where
  "utc_instant d = dt_wall d - (case dt_tzinfo d of None \<Rightarrow> 0 | Some off \<Rightarrow> off)"

definition datetime_sub :: "datetime \<Rightarrow> datetime \<Rightarrow> int" where
  "datetime_sub a b = utc_instant a - utc_instant b"

text \<open>\<open>timedelta(hours=h)\<close> and \<open>timedelta(minutes=m)\<close> in microseconds.\<close>

definition timedelta_hours :: "int \<Rightarrow> int" where
  "timedelta_hours h = h * 3600000000"

definition timedelta_minutes :: "int \<Rightarrow> int" where
  "timedelta_minutes m = m * 60000000"

section \<open>Content filter and normalisation\<close>

text \<open>
  \<open>filter_content(content)\<close>, lines 43-49, with \<open>FILTER_WORDS\<close> as the first argument. The
  content is \<open>None\<close> where the caller passes Python's \<open>None\<close>.
\<close>

definition filter_content :: "string list \<Rightarrow> string option \<Rightarrow> string" where
  "filter_content filter_words content =
     (case content of
        None \<Rightarrow> []
      | Some s \<Rightarrow>
          if s = [] then []
          else strip (fold (\<lambda>word c. re_sub_empty (match_word word) c) filter_words s))"

text \<open>\<open>clean_content_for_telegram(content)\<close>, lines 85-93.\<close>

definition clean_content_for_telegram :: "string list \<Rightarrow> string option \<Rightarrow> string" where
  "clean_content_for_telegram filter_words content =
     (case content of
        None \<Rightarrow> []
      | Some s \<Rightarrow>
          if s = [] then []
          else
            let c1 = re_sub_empty match_emoji s;
                c2 = re_sub_empty match_mention c1;
                c3 = filter (\<lambda>c. c \<notin> set markup_chars) c2
            in filter_content filter_words (Some c3))"

text \<open>
  \<open>process_embed(embed)\<close>, lines 95-108. An absent key reads as the empty string there,
  which the two filters treat as they treat \<open>None\<close>.
\<close>

definition field_part :: "string list \<Rightarrow> embed_field \<Rightarrow> string list" where
  "field_part filter_words field =
     (let name = filter_content filter_words (fld_name field);
          value = clean_content_for_telegram filter_words (fld_value field)
      in if name \<noteq> [] \<and> value \<noteq> [] then [''**'' @ name @ ''**'' @ nl @ value] else [])"

definition process_embed :: "string list \<Rightarrow> embed \<Rightarrow> string" where
  "process_embed filter_words emb =
     (let title = filter_content filter_words (emb_title emb);
          description = clean_content_for_telegram filter_words (emb_description emb);
          parts = (if title \<noteq> [] then [''**'' @ title @ ''**''] else [])
                  @ (if description \<noteq> [] then [description] else [])
                  @ concat (map (field_part filter_words) (emb_fields emb))
      in join (nl @ nl) parts)"

section \<open>Window filter\<close>

text \<open>\<open>message_timestamp.replace('Z', '+00:00')\<close>: every \<open>Z\<close> is replaced.\<close>

definition replace_Z :: "string \<Rightarrow> string" where
  "replace_Z s = concat (map (\<lambda>c. if c = CHR ''Z'' then ''+00:00'' else [c]) s)"

text \<open>\<open>is_within_window(message_timestamp)\<close>, lines 64-71.\<close>

definition is_within_window :: "env \<Rightarrow> string \<Rightarrow> world \<Rightarrow> bool \<times> world" where
  "is_within_window env message_timestamp w =
     (case fromisoformat env (replace_Z message_timestamp) of
        None \<Rightarrow> (False, log (''Could not parse timestamp: '' @ message_timestamp) ''ERROR'' w)
      | Some msg_time \<Rightarrow>
          (datetime_sub (datetime_now env w (dt_tzinfo msg_time)) msg_time
             < timedelta_hours (MESSAGE_WINDOW_HOURS env), w))"

section \<open>Fetching\<close>

text \<open>
  \<open>get_discord_messages(channel_id)\<close>, lines 73-83: the messages sorted by their time
  stamp as strings (\<open>sorted\<close> is stable, as \<open>sort_key\<close> is), or \<open>None\<close> after a
  \<open>RequestException\<close>.
\<close>

definition get_discord_messages :: "env \<Rightarrow> string \<Rightarrow> world \<Rightarrow> message list option \<times> world" where
  "get_discord_messages env channel_id w =
     (let w1 = w\<lparr>events := events w @ [HttpGet channel_id]\<rparr> in
      case discord_get env channel_id of
        Inl e \<Rightarrow> (None, log (''API or Network Error fetching from Discord: '' @ e) ''ERROR'' w1)
      | Inr response \<Rightarrow> (Some (sort_key msg_timestamp response), w1))"

section \<open>Forwarder\<close>

text \<open>
  The loop of lines 116-123 over \<open>enumerate(image_urls)\<close>: \<open>i\<close> is the position of the
  URL in \<open>image_urls\<close>.
\<close>

fun build_media :: "history \<Rightarrow> string \<Rightarrow> nat \<Rightarrow> string list \<Rightarrow> media_item list" where
  "build_media history text_content i [] = []"
| "build_media history text_content i (url # urls) =
     (if history url \<noteq> None then build_media history text_content (Suc i) urls
      else \<lparr>mi_type = ''photo'', mi_media = url,
            mi_caption = (if i = 0 \<and> text_content \<noteq> [] then Some text_content else None),
            mi_parse_mode = (if i = 0 \<and> text_content \<noteq> [] then Some ''Markdown'' else None)\<rparr>
           # build_media history text_content (Suc i) urls)"

text \<open>The branch taken at lines 126-136 and the call it makes; \<open>None\<close> is line 136.\<close>

definition choose_request :: "json_id \<Rightarrow> json_id \<Rightarrow> string \<Rightarrow> media_item list \<Rightarrow> request option" where
  "choose_request chat_id thread_id text_content media =
     (if length media > 1 then Some (SendMediaGroup chat_id thread_id media)
      else if length media = 1
        then Some (SendPhoto chat_id thread_id (mi_media (hd media)) (mi_caption (hd media)))
      else if text_content \<noteq> [] then Some (SendMessage chat_id thread_id text_content)
      else None)"

text \<open>The line logged after the call returned, lines 128, 131 and 134.\<close>

fun sent_line :: "request \<Rightarrow> string" where
  "sent_line (SendMediaGroup chat_id thread_id media) =
     ''Sent media group with '' @ str_nat (length media) @ '' images.''"
| "sent_line (SendPhoto chat_id thread_id photo caption) = ''Sent single photo.''"
| "sent_line (SendMessage chat_id thread_id txt) = ''Sent text-only message.''"

text \<open>
  \<open>send_to_telegram(chat_id, thread_id, text_content, image_urls)\<close>, lines 110-144, with
  the arguments as \<open>process_channel\<close> passes them: a string and a list. The result is
  the pair \<open>(success, sent_items)\<close>.
\<close>

definition send_to_telegram ::
  "env \<Rightarrow> json_id \<Rightarrow> json_id \<Rightarrow> string \<Rightarrow> string list \<Rightarrow> world \<Rightarrow> (bool \<times> string list) \<times> world" where
  "send_to_telegram env chat_id thread_id text_content image_urls w =
     (let (history, w1) = load_upload_history w;
          media = build_media history text_content 0 image_urls
      in case choose_request chat_id thread_id text_content media of
           None \<Rightarrow> ((False, []), w1)
         | Some req \<Rightarrow>
             (let w2 = w1\<lparr>events := events w1 @ [HttpPost req]\<rparr> in
              case telegram_post env req of
                Some e \<Rightarrow> ((False, []), log (''Failed to send to Telegram: '' @ e) ''ERROR'' w2)
              | None \<Rightarrow> ((True, image_urls), log (sent_line req) ''INFO'' w2)))"

section \<open>Pipeline\<close>

text \<open>The text body of a message, lines 161-169.\<close>

definition full_text :: "env \<Rightarrow> message \<Rightarrow> string" where
  "full_text env message =
     (let content = clean_content_for_telegram (FILTER_WORDS env) (msg_content message);
          text_parts = (if content \<noteq> [] then [content] else [])
                       @ filter (\<lambda>embed_text. embed_text \<noteq> [])
                           (map (process_embed (FILTER_WORDS env)) (msg_embeds message))
      in join (nl @ nl) text_parts)"

text \<open>The URLs of the image attachments, line 171.\<close>

definition image_urls_of :: "message \<Rightarrow> string list" where
  "image_urls_of message =
     map att_url
       (filter (\<lambda>attach. contains ''image''
                            (case att_content_type attach of None \<Rightarrow> [] | Some t \<Rightarrow> t))
          (msg_attachments message))"

text \<open>Lines 175-179: the message id and every reported item get the current time.\<close>

definition record_sent :: "env \<Rightarrow> world \<Rightarrow> string \<Rightarrow> string list \<Rightarrow> history \<Rightarrow> history" where
  "record_sent env w message_id sent_items history =
     fold (\<lambda>item h. h(item \<mapsto> isoformat env (clock w))) sent_items
       (history(message_id \<mapsto> isoformat env (clock w)))"

text \<open>
  One round of the loop of lines 156-182. The state of the loop is the dictionary
  \<open>history\<close> of line 154, the counter and the world.
\<close>

definition process_message ::
  "env \<Rightarrow> json_id \<Rightarrow> json_id \<Rightarrow> message \<Rightarrow> history \<times> nat \<times> world \<Rightarrow> history \<times> nat \<times> world" where
  "process_message env tg_chat tg_thread message s =
     (let (history, processed_count, w) = s;
          message_id = msg_id message
      in if history message_id \<noteq> None then s
         else
           let (recent, w1) = is_within_window env (msg_timestamp message) w in
           if \<not> recent then (history, processed_count, w1)
           else
             let ((success, sent_items), w2) =
                   send_to_telegram env tg_chat tg_thread (full_text env message)
                     (image_urls_of message) w1;
                 history' = (if success then record_sent env w2 message_id sent_items history
                             else history);
                 processed_count' = (if success then Suc processed_count else processed_count);
                 w3 = save_upload_history history' w2;
                 w4 = sleep REQUEST_DELAY w3
             in (history', processed_count', w4))"

text \<open>\<open>process_channel(discord_channel, tg_chat, tg_thread)\<close>, lines 146-184.\<close>

definition process_channel :: "env \<Rightarrow> string \<Rightarrow> json_id \<Rightarrow> json_id \<Rightarrow> world \<Rightarrow> world" where
  "process_channel env discord_channel tg_chat tg_thread w =
     (let w1 = log (''Processing channel '' @ discord_channel) ''INFO'' w;
          (messages, w2) = get_discord_messages env discord_channel w1
      in case messages of
           None \<Rightarrow> log (''No messages found for channel '' @ discord_channel) ''WARNING'' w2
         | Some msgs \<Rightarrow>
             if msgs = [] then log (''No messages found for channel '' @ discord_channel) ''WARNING'' w2
             else
               let (history, w3) = load_upload_history w2;
                   (history', processed_count, w4) =
                     fold (process_message env tg_chat tg_thread) msgs (history, 0, w3)
               in log (''Processed '' @ str_nat processed_count @ '' new messages from channel ''
                        @ discord_channel) ''INFO'' w4)"

text \<open>\<open>main()\<close>, lines 186-196. A token is falsy when it is absent or empty.\<close>

definition truthy :: "string option \<Rightarrow> bool" where
  "truthy v = (case v of None \<Rightarrow> False | Some s \<Rightarrow> s \<noteq> [])"

definition run_mappings :: "env \<Rightarrow> (string \<times> json_id \<times> json_id) list \<Rightarrow> world \<Rightarrow> world" where
  "run_mappings env mappings w =
     fold (\<lambda>(discord_channel, tg_chat, tg_thread). process_channel env discord_channel tg_chat tg_thread)
       mappings w"

definition main :: "env \<Rightarrow> world \<Rightarrow> world" where
  "main env w =
     (let w1 = log ''Starting Discord to Telegram mirror'' ''INFO'' w in
      if \<not> (truthy (DISCORD_BOT_TOKEN env) \<and> truthy (TELEGRAM_BOT_TOKEN env))
        then log ''FATAL: Discord or Telegram token not set in config.json.'' ''ERROR'' w1
      else log ''Mirror run finished.'' ''INFO'' (run_mappings env (CHANNEL_MAPPING env) w1))"

text \<open>The calls to Telegram in a trace.\<close>

fun is_post :: "event \<Rightarrow> bool" where
  "is_post (HttpPost req) = True"
| "is_post e = False"

definition posts :: "world \<Rightarrow> event list" where
  "posts w = filter is_post (events w)"

section \<open>Notions used in the statements\<close>

text \<open>\<open>datetime + timedelta\<close>: the wall-clock reading moves, the offset stays.\<close>

definition datetime_add :: "datetime \<Rightarrow> int \<Rightarrow> datetime" where
  "datetime_add d delta = d\<lparr>dt_wall := dt_wall d + delta\<rparr>"

text \<open>The dictionary that \<open>load_upload_history\<close> reads in a world.\<close>

definition stored :: "world \<Rightarrow> history" where
  "stored w = fst (load_upload_history w)"

text \<open>The answer of \<open>is_within_window\<close> when the clock reads \<open>t\<close>.\<close>

definition recent_at :: "env \<Rightarrow> string \<Rightarrow> int \<Rightarrow> bool" where
  "recent_at env message_timestamp t =
     fst (is_within_window env message_timestamp \<lparr>disk = None, clock = t, events = []\<rparr>)"

text \<open>The messages that the loop of a channel run goes through.\<close>

definition fetched :: "env \<Rightarrow> string \<Rightarrow> message list" where
  "fetched env channel_id =
     (case discord_get env channel_id of Inl e \<Rightarrow> [] | Inr response \<Rightarrow> sort_key msg_timestamp response)"

text \<open>
  A message is settled for a history and a clock reading when the loop has nothing to
  send for it: its id is a key, or it is outside the window, or it has no text and each
  of its image URLs is a key.
\<close>

definition settled :: "env \<Rightarrow> history \<Rightarrow> int \<Rightarrow> message \<Rightarrow> bool" where
  "settled env history t message =
     (history (msg_id message) \<noteq> None
      \<or> \<not> recent_at env (msg_timestamp message) t
      \<or> (full_text env message = [] \<and> set (image_urls_of message) \<subseteq> dom history))"

section \<open>Sample data\<close>

text \<open>
  A configuration with two mappings, a parser that knows two time stamps, and three
  messages: a text, an album with a caption, and one that normalises to nothing.
\<close>

definition sample_fromisoformat :: "string \<Rightarrow> datetime option" where
  "sample_fromisoformat s =
     (if s = ''2024-05-01T10:00:00+00:00''
        then Some \<lparr>dt_wall = 1714557600000000, dt_tzinfo = Some 0\<rparr>
      else if s = ''2024-05-01T10:00:05+00:00''
        then Some \<lparr>dt_wall = 1714557605000000, dt_tzinfo = Some 0\<rparr>
      else None)"

definition text_message :: message where
  "text_message =
     \<lparr>msg_id = ''41'', msg_timestamp = ''2024-05-01T10:00:00Z'',
      msg_content = Some ''hello <@!7> spam'', msg_embeds = [], msg_attachments = []\<rparr>"

definition album_message :: message where
  "album_message =
     \<lparr>msg_id = ''42'', msg_timestamp = ''2024-05-01T10:00:05Z'',
      msg_content = Some ''caption'', msg_embeds = [],
      msg_attachments =
        [\<lparr>att_url = ''u0'', att_content_type = Some ''image/png''\<rparr>,
         \<lparr>att_url = ''u1'', att_content_type = Some ''image/jpeg''\<rparr>,
         \<lparr>att_url = ''notes'', att_content_type = Some ''text/plain''\<rparr>,
         \<lparr>att_url = ''u2'', att_content_type = Some ''image/gif''\<rparr>]\<rparr>"

definition empty_message :: message where
  "empty_message =
     \<lparr>msg_id = ''43'', msg_timestamp = ''2024-05-01T10:00:05Z'',
      msg_content = Some ''**<:ok:1>**'', msg_embeds = [],
      msg_attachments = [\<lparr>att_url = ''notes'', att_content_type = None\<rparr>]\<rparr>"

definition sample_env :: env where
  "sample_env =
     \<lparr>DISCORD_BOT_TOKEN = Some ''discord-token'', TELEGRAM_BOT_TOKEN = Some ''telegram-token'',
      CHANNEL_MAPPING = [(''100'', IdNum 7, IdNum 1), (''200'', IdNum 8, IdNum 2)],
      FILTER_WORDS = [''spam''],
      MESSAGE_WINDOW_HOURS = 1,
      discord_get = (\<lambda>channel_id. if channel_id = ''100'' then Inl ''timed out''
                                   else Inr [album_message, text_message, empty_message]),
      telegram_post = (\<lambda>req. None),
      fromisoformat = sample_fromisoformat,
      isoformat = (\<lambda>t. ''2024-05-01T10:10:00''),
      local_utcoffset = 0\<rparr>"

text \<open>A world whose clock reads \<open>minutes\<close> minutes after 2024-05-01T10:00:00 UTC.\<close>

definition sample_world :: "history option \<Rightarrow> int \<Rightarrow> world" where
  "sample_world d minutes =
     \<lparr>disk = d, clock = 1714557600000000 + timedelta_minutes minutes, events = []\<rparr>"

section \<open>Facts about the model\<close>

lemmas sample_defs =
  sample_fromisoformat_def text_message_def album_message_def empty_message_def sample_env_def
  sample_world_def

lemmas string_defs =
  upper_chars_def lower_chars_def digit_chars_def is_digit_def is_word_char_def is_space_def
  lower_def strip_def eat_def eat_opt_def eat_many1_def matched_def match_word_def
  match_emoji_def match_mention_def markup_chars_def nl_def replace_Z_def

lemmas model_defs =
  REQUEST_DELAY_def log_def load_upload_history_def save_upload_history_def sleep_def
  datetime_now_def utc_instant_def datetime_sub_def timedelta_hours_def timedelta_minutes_def
  filter_content_def clean_content_for_telegram_def field_part_def process_embed_def
  is_within_window_def get_discord_messages_def choose_request_def send_to_telegram_def
  full_text_def image_urls_of_def record_sent_def process_message_def process_channel_def
  truthy_def run_mappings_def main_def posts_def datetime_add_def stored_def

subsection \<open>World, window, forwarder and loop\<close>

lemma stored_simps [simp]:
  "stored (w\<lparr>events := es\<rparr>) = stored w"
  "stored (w\<lparr>clock := t\<rparr>) = stored w"
  "stored (w\<lparr>disk := Some h\<rparr>) = h"
  "stored (log msg lvl w) = stored w"
  "stored (sleep k w) = stored w"
  "stored (save_upload_history h w) = h"
  by (simp_all add: stored_def load_upload_history_def log_def sleep_def save_upload_history_def)

lemma posts_simps [simp]:
  "posts (w\<lparr>events := events w @ es\<rparr>) = posts w @ filter is_post es"
  "posts (w\<lparr>clock := t\<rparr>) = posts w"
  "posts (w\<lparr>disk := d\<rparr>) = posts w"
  "posts (log msg lvl w) = posts w"
  "posts (sleep k w) = posts w"
  "posts (save_upload_history h w) = posts w"
  by (simp_all add: posts_def log_def sleep_def save_upload_history_def)

lemma clock_simps [simp]:
  "clock (log msg lvl w) = clock w"
  "clock (sleep k w) = clock w + int k * 1000000"
  "clock (save_upload_history h w) = clock w"
  by (simp_all add: log_def sleep_def save_upload_history_def)

lemma load_upload_history_eq:
  "load_upload_history w = (stored w, w\<lparr>events := events w @ [ReadHistory]\<rparr>)"
  by (simp add: stored_def load_upload_history_def)

lemma is_within_window_fst: "fst (is_within_window env ts w) = recent_at env ts (clock w)"
  by (simp add: recent_at_def is_within_window_def datetime_now_def split: option.splits)

lemma is_within_window_recent:
  "recent_at env ts (clock w) \<Longrightarrow> is_within_window env ts w = (True, w)"
  by (auto simp: recent_at_def is_within_window_def datetime_now_def split: option.splits)

lemma is_within_window_snd [simp]:
  "stored (snd (is_within_window env ts w)) = stored w"
  "posts (snd (is_within_window env ts w)) = posts w"
  "clock (snd (is_within_window env ts w)) = clock w"
  by (simp_all add: is_within_window_def split: option.splits)

lemma recent_at_mono: "t \<le> t' \<Longrightarrow> recent_at env ts t' \<Longrightarrow> recent_at env ts t"
  by (auto simp: recent_at_def is_within_window_def datetime_now_def datetime_sub_def utc_instant_def
      split: option.splits)

lemma choose_request_None_iff:
  "choose_request c t txt media = None \<longleftrightarrow> media = [] \<and> txt = []"
  by (cases media) (auto simp: choose_request_def)

lemma build_media_Nil_iff: "build_media h txt i urls = [] \<longleftrightarrow> set urls \<subseteq> dom h"
  by (induction urls arbitrary: i) auto

lemma send_nothing:
  "choose_request c t txt (build_media (stored w) txt 0 urls) = None \<Longrightarrow>
   send_to_telegram env c t txt urls w = ((False, []), w\<lparr>events := events w @ [ReadHistory]\<rparr>)"
  by (simp add: send_to_telegram_def load_upload_history_eq)

lemma send_ok:
  "choose_request c t txt (build_media (stored w) txt 0 urls) = Some req \<Longrightarrow>
   telegram_post env req = None \<Longrightarrow>
   send_to_telegram env c t txt urls w =
     ((True, urls), w\<lparr>events := events w @ [ReadHistory, HttpPost req, Log (sent_line req) ''INFO'']\<rparr>)"
  by (simp add: send_to_telegram_def load_upload_history_eq log_def)

lemma send_fail:
  "choose_request c t txt (build_media (stored w) txt 0 urls) = Some req \<Longrightarrow>
   telegram_post env req = Some e \<Longrightarrow>
   send_to_telegram env c t txt urls w =
     ((False, []), w\<lparr>events := events w @ [ReadHistory, HttpPost req,
                                           Log (''Failed to send to Telegram: '' @ e) ''ERROR'']\<rparr>)"
  by (simp add: send_to_telegram_def load_upload_history_eq log_def)

lemma process_message_known:
  "h (msg_id m) \<noteq> None \<Longrightarrow> process_message env c t m (h, n, w) = (h, n, w)"
  by (auto simp: process_message_def)

lemma process_message_old:
  "h (msg_id m) = None \<Longrightarrow> \<not> recent_at env (msg_timestamp m) (clock w) \<Longrightarrow>
   process_message env c t m (h, n, w) = (h, n, snd (is_within_window env (msg_timestamp m) w))"
  using is_within_window_fst[of env "msg_timestamp m" w]
  by (auto simp: process_message_def split: prod.splits)

lemma process_message_attempt:
  "h (msg_id m) = None \<Longrightarrow> recent_at env (msg_timestamp m) (clock w) \<Longrightarrow>
   send_to_telegram env c t (full_text env m) (image_urls_of m) w = ((ok, items), w2) \<Longrightarrow>
   process_message env c t m (h, n, w) =
     (if ok then record_sent env w2 (msg_id m) items h else h,
      if ok then Suc n else n,
      sleep REQUEST_DELAY (save_upload_history (if ok then record_sent env w2 (msg_id m) items h else h) w2))"
  by (simp add: process_message_def is_within_window_recent Let_def)

lemma dom_record_sent: "dom (record_sent env w k items h) = insert k (dom h) \<union> set items"
proof -
  have "dom (fold (\<lambda>item h. h(item \<mapsto> v)) items h0) = dom h0 \<union> set items" for v and h0 :: history
    by (induction items arbitrary: h0) auto
  then show ?thesis by (auto simp: record_sent_def)
qed


lemma settled_mono:
  "settled env h t m \<Longrightarrow> dom h \<subseteq> dom h' \<Longrightarrow> t \<le> t' \<Longrightarrow> settled env h' t' m"
  unfolding settled_def using recent_at_mono[of t t' env "msg_timestamp m"] by (auto simp: domIff subset_iff)

text \<open>A round on a settled message sends nothing and keeps the history.\<close>

lemma process_message_settled:
  assumes "stored w = h" and "settled env h (clock w) m"
  obtains w' where "process_message env c t m (h, n, w) = (h, n, w')"
    and "posts w' = posts w" and "stored w' = h" and "clock w \<le> clock w'"
proof (cases "h (msg_id m) \<noteq> None")
  case True
  then show ?thesis using that[of w] assms by (simp add: process_message_known)
next
  case known: False
  show ?thesis
  proof (cases "recent_at env (msg_timestamp m) (clock w)")
    case False
    then show ?thesis
      using that[of "snd (is_within_window env (msg_timestamp m) w)"] known assms
      by (simp add: process_message_old)
  next
    case True
    with assms known have e: "full_text env m = []" "set (image_urls_of m) \<subseteq> dom h"
      by (auto simp: settled_def)
    then have "choose_request c t (full_text env m) (build_media (stored w) (full_text env m) 0 (image_urls_of m)) = None"
      using assms by (simp add: choose_request_None_iff build_media_Nil_iff)
    from known have known': "h (msg_id m) = None" by simp
    from process_message_attempt[where h=h and m=m and n=n, OF known' True send_nothing[OF \<open>choose_request c t (full_text env m) (build_media (stored w) (full_text env m) 0 (image_urls_of m)) = None\<close>, of env]]
    have "process_message env c t m (h, n, w) =
            (h, n, sleep REQUEST_DELAY (save_upload_history h (w\<lparr>events := events w @ [ReadHistory]\<rparr>)))"
      by simp
    then show ?thesis
      using that[of "sleep REQUEST_DELAY (save_upload_history h (w\<lparr>events := events w @ [ReadHistory]\<rparr>))"]
      by simp
  qed
qed

text \<open>When every call to Telegram returns, a round leaves its message settled.\<close>

lemma process_message_settles:
  assumes ok: "\<forall>req. telegram_post env req = None" and sync: "stored w = h"
  obtains h' n' w' where "process_message env c t m (h, n, w) = (h', n', w')"
    and "settled env h' (clock w') m" and "stored w' = h'" and "dom h \<subseteq> dom h'"
    and "clock w \<le> clock w'"
proof (cases "settled env h (clock w) m")
  case True
  from process_message_settled[OF sync True, of c t n] obtain w' where
    "process_message env c t m (h, n, w) = (h, n, w')" "stored w' = h" "clock w \<le> clock w'"
    by blast
  then show ?thesis using that[of h n w'] settled_mono[OF True, of h "clock w'"] by auto
next
  case False
  then have known: "h (msg_id m) = None" and recent: "recent_at env (msg_timestamp m) (clock w)"
    and ne: "\<not> (full_text env m = [] \<and> set (image_urls_of m) \<subseteq> dom h)"
    by (auto simp: settled_def)
  from ne sync obtain req where
    req: "choose_request c t (full_text env m) (build_media (stored w) (full_text env m) 0 (image_urls_of m)) = Some req"
    using choose_request_None_iff[of c t "full_text env m" "build_media (stored w) (full_text env m) 0 (image_urls_of m)"]
    by (auto simp: build_media_Nil_iff)
  let ?w2 = "w\<lparr>events := events w @ [ReadHistory, HttpPost req, Log (sent_line req) ''INFO'']\<rparr>"
  let ?h' = "record_sent env ?w2 (msg_id m) (image_urls_of m) h"
  from ok have "telegram_post env req = None" by simp
  from process_message_attempt[where h=h and m=m and n=n, OF known recent send_ok[OF req this]]
  have step: "process_message env c t m (h, n, w) =
                (?h', Suc n, sleep REQUEST_DELAY (save_upload_history ?h' ?w2))"
    by simp
  have "?h' (msg_id m) \<noteq> None"
    using dom_record_sent[of env ?w2 "msg_id m" "image_urls_of m" h] by (auto simp: domIff)
  then have "settled env ?h' t' m" for t' by (simp add: settled_def)
  moreover have "dom h \<subseteq> dom ?h'" by (auto simp: dom_record_sent)
  ultimately show ?thesis
    using that[of ?h' "Suc n" "sleep REQUEST_DELAY (save_upload_history ?h' ?w2)"] step by simp
qed

lemma loop_settled:
  assumes "stored w = h" and "\<forall>m \<in> set msgs. settled env h (clock w) m"
  obtains w' where "fold (process_message env c t) msgs (h, n, w) = (h, n, w')"
    and "posts w' = posts w" and "stored w' = h" and "clock w \<le> clock w'"
  using assms
proof (induction msgs arbitrary: w thesis)
  case Nil
  then show ?case by simp
next
  case (Cons m msgs)
  from Cons.prems have sm: "settled env h (clock w) m" by simp
  from process_message_settled[OF Cons.prems(2) sm, of c t n] obtain w1 where
    w1: "process_message env c t m (h, n, w) = (h, n, w1)" "posts w1 = posts w" "stored w1 = h"
      "clock w \<le> clock w1" by blast
  have "\<forall>m \<in> set msgs. settled env h (clock w1) m"
    using Cons.prems(3) w1(4) settled_mono[of env h "clock w" _ h "clock w1"] by auto
  from Cons.IH[OF _ w1(3) this] obtain w' where
    "fold (process_message env c t) msgs (h, n, w1) = (h, n, w')" "posts w' = posts w1"
    "stored w' = h" "clock w1 \<le> clock w'" by blast
  then show ?case using Cons.prems(1)[of w'] w1 by simp
qed

lemma loop_settles:
  assumes ok: "\<forall>req. telegram_post env req = None" and "stored w = h"
  obtains h' n' w' where "fold (process_message env c t) msgs (h, n, w) = (h', n', w')"
    and "\<forall>m \<in> set msgs. settled env h' (clock w') m" and "stored w' = h'"
    and "dom h \<subseteq> dom h'" and "clock w \<le> clock w'"
  using assms(2)
proof (induction msgs arbitrary: h n w thesis rule: rev_induct)
  case Nil
  then show ?case by simp
next
  case (snoc m msgs)
  from snoc.IH[OF _ snoc.prems(2), of n] obtain h1 n1 w1 where
    l1: "fold (process_message env c t) msgs (h, n, w) = (h1, n1, w1)"
      "\<forall>m \<in> set msgs. settled env h1 (clock w1) m" "stored w1 = h1" "dom h \<subseteq> dom h1"
      "clock w \<le> clock w1" by blast
  from process_message_settles[OF ok l1(3), of c t m n1] obtain h' n' w' where
    s: "process_message env c t m (h1, n1, w1) = (h', n', w')" "settled env h' (clock w') m"
      "stored w' = h'" "dom h1 \<subseteq> dom h'" "clock w1 \<le> clock w'" by blast
  have "\<forall>m \<in> set msgs. settled env h' (clock w') m"
    using l1(2) s(4,5) settled_mono[of env h1 "clock w1" _ h' "clock w'"] by auto
  then show ?case using snoc.prems(1)[of h' n' w'] l1 s by auto
qed


lemma get_discord_messages_failed:
  "discord_get env c = Inl e \<Longrightarrow>
   get_discord_messages env c w =
     (None, w\<lparr>events := events w @ [HttpGet c, Log (''API or Network Error fetching from Discord: '' @ e) ''ERROR'']\<rparr>)"
  by (simp add: get_discord_messages_def log_def)

lemma get_discord_messages_ok:
  "discord_get env c = Inr r \<Longrightarrow>
   get_discord_messages env c w = (Some (fetched env c), w\<lparr>events := events w @ [HttpGet c]\<rparr>)"
  by (simp add: get_discord_messages_def fetched_def)

lemma process_channel_failed:
  "discord_get env c = Inl e \<Longrightarrow>
   process_channel env c chat thread w =
     w\<lparr>events := events w @
        [Log (''Processing channel '' @ c) ''INFO'', HttpGet c,
         Log (''API or Network Error fetching from Discord: '' @ e) ''ERROR'',
         Log (''No messages found for channel '' @ c) ''WARNING'']\<rparr>"
  by (simp add: process_channel_def get_discord_messages_failed log_def)

lemma process_channel_empty:
  "discord_get env c = Inr r \<Longrightarrow> fetched env c = [] \<Longrightarrow>
   process_channel env c chat thread w =
     w\<lparr>events := events w @
        [Log (''Processing channel '' @ c) ''INFO'', HttpGet c,
         Log (''No messages found for channel '' @ c) ''WARNING'']\<rparr>"
  by (simp add: process_channel_def get_discord_messages_ok log_def)

lemma process_channel_loop:
  "discord_get env c = Inr r \<Longrightarrow> fetched env c \<noteq> [] \<Longrightarrow>
   fold (process_message env chat thread) (fetched env c)
     (stored w, 0, w\<lparr>events := events w @ [Log (''Processing channel '' @ c) ''INFO'', HttpGet c, ReadHistory]\<rparr>)
     = (h', n', w') \<Longrightarrow>
   process_channel env c chat thread w =
     log (''Processed '' @ str_nat n' @ '' new messages from channel '' @ c) ''INFO'' w'"
  by (simp add: process_channel_def get_discord_messages_ok log_def load_upload_history_eq)

lemma process_channel_cases:
  obtains (quiet) es where "process_channel env c chat thread w = w\<lparr>events := events w @ es\<rparr>"
      "filter is_post es = []" "fetched env c = []"
  | (loop) h' n' w' where "fetched env c \<noteq> []"
      "fold (process_message env chat thread) (fetched env c)
         (stored w, 0, w\<lparr>events := events w @ [Log (''Processing channel '' @ c) ''INFO'', HttpGet c, ReadHistory]\<rparr>)
         = (h', n', w')"
      "process_channel env c chat thread w =
         log (''Processed '' @ str_nat n' @ '' new messages from channel '' @ c) ''INFO'' w'"
proof (cases "discord_get env c")
  case (Inl e)
  then show ?thesis using quiet[OF process_channel_failed[OF Inl]] by (simp add: fetched_def)
next
  case (Inr r)
  show ?thesis
  proof (cases "fetched env c = []")
    case True
    then show ?thesis using quiet[OF process_channel_empty[OF Inr True]] by simp
  next
    case False
    obtain h' n' w' where f: "fold (process_message env chat thread) (fetched env c)
         (stored w, 0, w\<lparr>events := events w @ [Log (''Processing channel '' @ c) ''INFO'', HttpGet c, ReadHistory]\<rparr>)
         = (h', n', w')" by (metis prod_cases3)
    from loop[OF False f process_channel_loop[OF Inr False f]] show ?thesis .
  qed
qed

lemma process_channel_settles:
  fixes env c chat thread w
  assumes ok: "\<forall>req. telegram_post env req = None"
  defines "w' \<equiv> process_channel env c chat thread w"
  shows "(\<forall>m \<in> set (fetched env c). settled env (stored w') (clock w') m)
         \<and> dom (stored w) \<subseteq> dom (stored w') \<and> clock w \<le> clock w'"
proof (cases rule: process_channel_cases[of env c chat thread w])
  case (quiet es)
  then show ?thesis by (simp add: w'_def)
next
  case (loop h1 n1 w1)
  let ?w0 = "w\<lparr>events := events w @ [Log (''Processing channel '' @ c) ''INFO'', HttpGet c, ReadHistory]\<rparr>"
  have sync: "stored ?w0 = stored w" by simp
  from loop_settles[OF ok sync, of chat thread "fetched env c" 0] obtain h' n' w2 where
    l: "fold (process_message env chat thread) (fetched env c) (stored w, 0, ?w0) = (h', n', w2)"
      "\<forall>m \<in> set (fetched env c). settled env h' (clock w2) m" "stored w2 = h'"
      "dom (stored w) \<subseteq> dom h'" "clock ?w0 \<le> clock w2" by blast
  from loop(2) l(1) have eq: "w1 = w2" by simp
  have pc: "w' = log (''Processed '' @ str_nat n1 @ '' new messages from channel '' @ c) ''INFO'' w2"
    unfolding w'_def loop(3) eq ..
  have "stored w' = h'" "clock w' = clock w2" by (simp_all add: pc l(3))
  moreover have "clock w \<le> clock w2" using l(5) by simp
  ultimately show ?thesis using l(2) l(4) by simp
qed

lemma process_channel_settled:
  fixes env c chat thread w
  assumes "\<forall>m \<in> set (fetched env c). settled env (stored w) (clock w) m"
  defines "w' \<equiv> process_channel env c chat thread w"
  shows "posts w' = posts w \<and> stored w' = stored w \<and> clock w \<le> clock w'"
proof (cases rule: process_channel_cases[of env c chat thread w])
  case (quiet es)
  then show ?thesis by (simp add: w'_def)
next
  case (loop h1 n1 w1)
  let ?w0 = "w\<lparr>events := events w @ [Log (''Processing channel '' @ c) ''INFO'', HttpGet c, ReadHistory]\<rparr>"
  have sync: "stored ?w0 = stored w" by simp
  have "\<forall>m \<in> set (fetched env c). settled env (stored w) (clock ?w0) m" using assms(1) by simp
  from loop_settled[OF sync this, of chat thread 0] obtain w2 where
    l: "fold (process_message env chat thread) (fetched env c) (stored w, 0, ?w0) = (stored w, 0, w2)"
      "posts w2 = posts ?w0" "stored w2 = stored w" "clock ?w0 \<le> clock w2" by blast
  from loop(2) l(1) have eq: "w1 = w2" by simp
  have pc: "w' = log (''Processed '' @ str_nat n1 @ '' new messages from channel '' @ c) ''INFO'' w2"
    unfolding w'_def loop(3) eq ..
  have "posts w' = posts w2" "stored w' = stored w2" "clock w' = clock w2" by (simp_all add: pc)
  moreover have "clock w \<le> clock w2" using l(4) by simp
  moreover have "posts w2 = posts w" using l(2) by simp
  ultimately show ?thesis using l(3) by simp
qed

lemma run_mappings_Nil [simp]: "run_mappings env [] w = w"
  by (simp add: run_mappings_def)

lemma run_mappings_Cons [simp]:
  "run_mappings env ((c, chat, thread) # ms) w = run_mappings env ms (process_channel env c chat thread w)"
  by (simp add: run_mappings_def)

lemma run_mappings_append [simp]:
  "run_mappings env (ms @ ms') w = run_mappings env ms' (run_mappings env ms w)"
  by (simp add: run_mappings_def)

lemma run_mappings_settles:
  fixes env ms w
  assumes ok: "\<forall>req. telegram_post env req = None"
  defines "w' \<equiv> run_mappings env ms w"
  shows "(\<forall>x \<in> set ms. \<forall>m \<in> set (fetched env (fst x)). settled env (stored w') (clock w') m)
         \<and> dom (stored w) \<subseteq> dom (stored w') \<and> clock w \<le> clock w'"
  unfolding w'_def
proof (induction ms rule: rev_induct)
  case Nil
  then show ?case by simp
next
  case (snoc x ms)
  obtain c chat thread where x: "x = (c, chat, thread)" by (cases x) auto
  let ?w1 = "run_mappings env ms w"
  let ?w2 = "process_channel env c chat thread ?w1"
  from process_channel_settles[OF ok, of c chat thread ?w1]
  have s: "\<forall>m \<in> set (fetched env c). settled env (stored ?w2) (clock ?w2) m"
    "dom (stored ?w1) \<subseteq> dom (stored ?w2)" "clock ?w1 \<le> clock ?w2" by simp_all
  have "\<forall>y \<in> set ms. \<forall>m \<in> set (fetched env (fst y)). settled env (stored ?w2) (clock ?w2) m"
    using snoc.IH s(2,3) settled_mono[of env "stored ?w1" "clock ?w1" _ "stored ?w2" "clock ?w2"]
    by blast
  moreover have "dom (stored w) \<subseteq> dom (stored ?w2)" using snoc.IH s(2) by blast
  moreover have "clock w \<le> clock ?w2" using snoc.IH s(3) by linarith
  ultimately show ?case using s(1) by (simp add: x)
qed

lemma run_mappings_settled:
  assumes "\<forall>x \<in> set ms. \<forall>m \<in> set (fetched env (fst x)). settled env (stored w) (clock w) m"
  shows "posts (run_mappings env ms w) = posts w \<and> stored (run_mappings env ms w) = stored w
         \<and> clock w \<le> clock (run_mappings env ms w)"
  using assms
proof (induction ms arbitrary: w)
  case Nil
  then show ?case by simp
next
  case (Cons x ms)
  obtain c chat thread where x: "x = (c, chat, thread)" by (cases x) auto
  let ?w1 = "process_channel env c chat thread w"
  from Cons.prems have "\<forall>m \<in> set (fetched env c). settled env (stored w) (clock w) m"
    by (simp add: x)
  from process_channel_settled[OF this, of chat thread]
  have q: "posts ?w1 = posts w" "stored ?w1 = stored w" "clock w \<le> clock ?w1" by simp_all
  have "\<forall>y \<in> set ms. \<forall>m \<in> set (fetched env (fst y)). settled env (stored ?w1) (clock ?w1) m"
    using Cons.prems q(2,3) settled_mono[of env "stored w" "clock w" _ "stored ?w1" "clock ?w1"]
    by auto
  from Cons.IH[OF this] q show ?case by (simp add: x)
qed

lemma main_with_tokens:
  "truthy (DISCORD_BOT_TOKEN env) \<and> truthy (TELEGRAM_BOT_TOKEN env) \<Longrightarrow>
   main env w = log ''Mirror run finished.'' ''INFO''
                  (run_mappings env (CHANNEL_MAPPING env)
                     (log ''Starting Discord to Telegram mirror'' ''INFO'' w))"
  by (simp add: main_def Let_def)

lemma main_without_tokens:
  "\<not> (truthy (DISCORD_BOT_TOKEN env) \<and> truthy (TELEGRAM_BOT_TOKEN env)) \<Longrightarrow>
   main env w = log ''FATAL: Discord or Telegram token not set in config.json.'' ''ERROR''
                  (log ''Starting Discord to Telegram mirror'' ''INFO'' w)"
  by (simp add: main_def Let_def)

lemma send_to_telegram_result:
  obtains (nothing) "send_to_telegram env c t txt urls w = ((False, []), w\<lparr>events := events w @ [ReadHistory]\<rparr>)"
  | (sent) es where "send_to_telegram env c t txt urls w = ((True, urls), w\<lparr>events := events w @ es\<rparr>)"
  | (failed) es where "send_to_telegram env c t txt urls w = ((False, []), w\<lparr>events := events w @ es\<rparr>)"
proof (cases "choose_request c t txt (build_media (stored w) txt 0 urls)")
  case None
  show ?thesis by (rule nothing) (rule send_nothing[OF None])
next
  case (Some req)
  show ?thesis
  proof (cases "telegram_post env req")
    case None
    show ?thesis by (rule sent) (rule send_ok[OF Some None])
  next
    case (Some e)
    show ?thesis
      by (rule failed)
        (rule send_fail[OF \<open>choose_request c t txt (build_media (stored w) txt 0 urls) = Some req\<close> Some])
  qed
qed

lemma process_message_invariant:
  assumes "process_message env c t m (h, n, w) = (h', n', w')"
  shows "dom h \<subseteq> dom h'" and "stored w = h \<Longrightarrow> stored w' = h'"
proof -
  have "dom h \<subseteq> dom h' \<and> (stored w = h \<longrightarrow> stored w' = h')"
  proof (cases "h (msg_id m) \<noteq> None")
    case True
    with assms show ?thesis by (simp add: process_message_known)
  next
    case False
    then have known: "h (msg_id m) = None" by simp
    show ?thesis
    proof (cases "recent_at env (msg_timestamp m) (clock w)")
      case False
      with assms known show ?thesis by (auto simp: process_message_old)
    next
      case True
      obtain ok items w2 where
        s: "send_to_telegram env c t (full_text env m) (image_urls_of m) w = ((ok, items), w2)"
        by (metis prod.exhaust)
      from process_message_attempt[where h=h and m=m and n=n, OF known True s] assms
      have "h' = (if ok then record_sent env w2 (msg_id m) items h else h)"
        "w' = sleep REQUEST_DELAY (save_upload_history h' w2)" by simp_all
      then show ?thesis by (auto simp: dom_record_sent)
    qed
  qed
  then show "dom h \<subseteq> dom h'" and "stored w = h \<Longrightarrow> stored w' = h'" by simp_all
qed


lemma loop_skips_known:
  "K \<subseteq> dom h \<Longrightarrow>
   fold (process_message env c t) (filter (\<lambda>m. msg_id m \<notin> K) msgs) (h, n, w)
     = fold (process_message env c t) msgs (h, n, w)"
proof (induction msgs arbitrary: h n w)
  case Nil
  then show ?case by simp
next
  case (Cons m msgs)
  obtain h1 n1 w1 where s: "process_message env c t m (h, n, w) = (h1, n1, w1)"
    by (metis prod_cases3)
  from process_message_invariant(1)[OF s] Cons.prems have K: "K \<subseteq> dom h1" by blast
  show ?case
  proof (cases "msg_id m \<in> K")
    case True
    with Cons.prems have "h (msg_id m) \<noteq> None" by (auto simp: domIff)
    then have "process_message env c t m (h, n, w) = (h, n, w)" by (rule process_message_known)
    with True Cons.IH[OF Cons.prems] show ?thesis by simp
  next
    case False
    with Cons.IH[OF K] s show ?thesis by simp
  qed
qed

lemma build_media_later_no_caption:
  "\<forall>item \<in> set (build_media h txt (Suc i) urls). mi_caption item = None"
  by (induction urls arbitrary: i) auto

subsection \<open>Reads and writes of the history file in a trace\<close>









section \<open>The claims\<close>

text \<open>
  C1, at a failing input: \<open>u0\<close> is a key of the history on disk, so only \<open>u1\<close> is passed
  to the send (a single photo), yet the call reports both URLs as sent items.
\<close>

theorem send_to_telegram_reports_skipped_url:
  "fst (send_to_telegram sample_env (IdNum 8) (IdNum 2) [] [''u0'', ''u1'']
          (sample_world (Some [''u0'' \<mapsto> ''2024-04-30T09:00:00'']) 10))
     = (True, [''u0'', ''u1''])
   \<and> events (snd (send_to_telegram sample_env (IdNum 8) (IdNum 2) [] [''u0'', ''u1'']
          (sample_world (Some [''u0'' \<mapsto> ''2024-04-30T09:00:00'']) 10)))
     = [ReadHistory, HttpPost (SendPhoto (IdNum 8) (IdNum 2) ''u1'' None),
        Log ''Sent single photo.'' ''INFO'']"
  by (simp add: sample_defs model_defs)




text \<open>
  C3, at a failing input: the first of three URLs is a key of the history on disk. The
  other two go out as one album, and the text \<open>caption\<close> is on neither of them.
\<close>

theorem send_to_telegram_drops_caption:
  "fst (send_to_telegram sample_env (IdNum 8) (IdNum 2) ''caption'' [''u0'', ''u1'', ''u2'']
          (sample_world (Some [''u0'' \<mapsto> ''2024-04-30T09:00:00'']) 10))
     = (True, [''u0'', ''u1'', ''u2''])
   \<and> posts (snd (send_to_telegram sample_env (IdNum 8) (IdNum 2) ''caption'' [''u0'', ''u1'', ''u2'']
          (sample_world (Some [''u0'' \<mapsto> ''2024-04-30T09:00:00'']) 10)))
     = [HttpPost (SendMediaGroup (IdNum 8) (IdNum 2)
          [\<lparr>mi_type = ''photo'', mi_media = ''u1'', mi_caption = None, mi_parse_mode = None\<rparr>,
           \<lparr>mi_type = ''photo'', mi_media = ''u2'', mi_caption = None, mi_parse_mode = None\<rparr>])]"
  by (simp add: sample_defs model_defs)

text \<open>
  C4, at failing inputs: with the banned phrase \<open>ab\<close>, the one pass over \<open>aabb\<close> cuts
  the inner \<open>ab\<close> and joins what is left to a new \<open>ab\<close>, which the result still
  contains. With the phrases \<open>ab\<close> and \<open>cd\<close>, the pass for \<open>cd\<close> comes after the pass for
  \<open>ab\<close> and leaves an \<open>ab\<close> behind in \<open>ab acdb\<close>.
\<close>

theorem filter_content_leaves_occurrence:
  "''ab'' \<in> set [''ab''] \<and> contains_ci ''ab'' ''aabb''
   \<and> filter_content [''ab''] (Some ''aabb'') = ''ab''
   \<and> contains_ci ''ab'' (filter_content [''ab''] (Some ''aabb''))
   \<and> ''ab'' \<in> set [''ab'', ''cd''] \<and> contains_ci ''ab'' ''ab acdb''
   \<and> filter_content [''ab'', ''cd''] (Some ''ab acdb'') = ''ab''
   \<and> contains_ci ''ab'' (filter_content [''ab'', ''cd''] (Some ''ab acdb''))"
  by (simp add: filter_content_def string_defs)

text \<open>
  C5: with a window of one hour, \<open>is_within_window\<close> answers False when now is the
  message time plus 61 minutes, and also at exactly 60 minutes (the comparison is strict),
  True at 59 minutes, and False, with the world otherwise unchanged but for the logged
  error, when \<open>fromisoformat\<close> rejects the time stamp.
\<close>

theorem is_within_window_one_hour:
  assumes "MESSAGE_WINDOW_HOURS env = 1"
  shows "(fromisoformat env (replace_Z ts) = Some T
            \<and> datetime_now env w (dt_tzinfo T) = datetime_add T (timedelta_minutes 61)
          \<longrightarrow> is_within_window env ts w = (False, w))
       \<and> (fromisoformat env (replace_Z ts) = Some T
            \<and> datetime_now env w (dt_tzinfo T) = datetime_add T (timedelta_minutes 60)
          \<longrightarrow> is_within_window env ts w = (False, w))
       \<and> (fromisoformat env (replace_Z ts) = Some T
            \<and> datetime_now env w (dt_tzinfo T) = datetime_add T (timedelta_minutes 59)
          \<longrightarrow> is_within_window env ts w = (True, w))
       \<and> (fromisoformat env (replace_Z ts) = None
          \<longrightarrow> is_within_window env ts w
              = (False, log (''Could not parse timestamp: '' @ ts) ''ERROR'' w))"
  using assms
  by (simp add: is_within_window_def datetime_sub_def utc_instant_def datetime_add_def
      timedelta_minutes_def timedelta_hours_def)

theorem is_within_window_one_hour_witness:
  "MESSAGE_WINDOW_HOURS sample_env = 1
   \<and> fromisoformat sample_env (replace_Z ''2024-05-01T10:00:00Z'')
       = Some \<lparr>dt_wall = 1714557600000000, dt_tzinfo = Some 0\<rparr>
   \<and> datetime_now sample_env (sample_world None 61) (Some 0)
       = datetime_add \<lparr>dt_wall = 1714557600000000, dt_tzinfo = Some 0\<rparr> (timedelta_minutes 61)
   \<and> \<not> fst (is_within_window sample_env ''2024-05-01T10:00:00Z'' (sample_world None 61))
   \<and> datetime_now sample_env (sample_world None 60) (Some 0)
       = datetime_add \<lparr>dt_wall = 1714557600000000, dt_tzinfo = Some 0\<rparr> (timedelta_minutes 60)
   \<and> \<not> fst (is_within_window sample_env ''2024-05-01T10:00:00Z'' (sample_world None 60))
   \<and> datetime_now sample_env (sample_world None 59) (Some 0)
       = datetime_add \<lparr>dt_wall = 1714557600000000, dt_tzinfo = Some 0\<rparr> (timedelta_minutes 59)
   \<and> fst (is_within_window sample_env ''2024-05-01T10:00:00Z'' (sample_world None 59))
   \<and> fromisoformat sample_env (replace_Z ''yesterday'') = None
   \<and> \<not> fst (is_within_window sample_env ''yesterday'' (sample_world None 59))"
  using is_within_window_one_hour[of sample_env "''2024-05-01T10:00:00Z''"
          "\<lparr>dt_wall = 1714557600000000, dt_tzinfo = Some 0\<rparr>" "sample_world None 61"]
        is_within_window_one_hour[of sample_env "''2024-05-01T10:00:00Z''"
          "\<lparr>dt_wall = 1714557600000000, dt_tzinfo = Some 0\<rparr>" "sample_world None 60"]
        is_within_window_one_hour[of sample_env "''2024-05-01T10:00:00Z''"
          "\<lparr>dt_wall = 1714557600000000, dt_tzinfo = Some 0\<rparr>" "sample_world None 59"]
        is_within_window_one_hour[of sample_env "''yesterday''" _ "sample_world None 59"]
  by (simp add: sample_defs replace_Z_def datetime_now_def datetime_add_def timedelta_minutes_def)

text \<open>
  C6: when the call to Telegram raises, \<open>send_to_telegram\<close> returns \<open>(False, [])\<close>; the
  round of the loop leaves the dictionary and the counter as they were, and still writes
  the dictionary to disk after the failed call.
\<close>

theorem failed_send_records_nothing:
  assumes "history (msg_id message) = None"
    and "fst (is_within_window env (msg_timestamp message) w)"
    and "choose_request tg_chat tg_thread (full_text env message)
           (build_media (fst (load_upload_history w)) (full_text env message) 0
              (image_urls_of message)) = Some req"
    and "telegram_post env req = Some e"
  shows "fst (send_to_telegram env tg_chat tg_thread (full_text env message)
                (image_urls_of message) w) = (False, [])
       \<and> process_message env tg_chat tg_thread message (history, n, w)
           = (history, n,
              w\<lparr>disk := Some history, clock := clock w + 3000000,
                events := events w @
                  [ReadHistory, HttpPost req, Log (''Failed to send to Telegram: '' @ e) ''ERROR'',
                   WriteHistory, Sleep 3]\<rparr>)"
proof -
  from assms(2) have recent: "recent_at env (msg_timestamp message) (clock w)"
    by (simp add: is_within_window_fst)
  from assms(3) have req: "choose_request tg_chat tg_thread (full_text env message)
      (build_media (stored w) (full_text env message) 0 (image_urls_of message)) = Some req"
    by (simp add: stored_def)
  note s = send_fail[OF req assms(4)]
  from process_message_attempt[where h=history and m=message and n=n, OF assms(1) recent s]
  show ?thesis
    by (simp add: s sleep_def save_upload_history_def REQUEST_DELAY_def)
qed

theorem failed_send_records_nothing_witness:
  "Map.empty (msg_id text_message) = None
   \<and> fst (is_within_window (sample_env\<lparr>telegram_post := \<lambda>req. Some ''connection reset''\<rparr>)
            (msg_timestamp text_message) (sample_world None 10))
   \<and> choose_request (IdNum 8) (IdNum 2)
        (full_text (sample_env\<lparr>telegram_post := \<lambda>req. Some ''connection reset''\<rparr>) text_message)
        (build_media (fst (load_upload_history (sample_world None 10)))
           (full_text (sample_env\<lparr>telegram_post := \<lambda>req. Some ''connection reset''\<rparr>) text_message) 0
           (image_urls_of text_message))
       = Some (SendMessage (IdNum 8) (IdNum 2) ''hello'')
   \<and> telegram_post (sample_env\<lparr>telegram_post := \<lambda>req. Some ''connection reset''\<rparr>)
        (SendMessage (IdNum 8) (IdNum 2) ''hello'') = Some ''connection reset''
   \<and> process_message (sample_env\<lparr>telegram_post := \<lambda>req. Some ''connection reset''\<rparr>)
        (IdNum 8) (IdNum 2) text_message (Map.empty, 0, sample_world None 10)
       = (Map.empty, 0,
          (sample_world None 10)\<lparr>disk := Some Map.empty, clock := clock (sample_world None 10) + 3000000,
             events := events (sample_world None 10) @
               [ReadHistory, HttpPost (SendMessage (IdNum 8) (IdNum 2) ''hello''),
                Log (''Failed to send to Telegram: '' @ ''connection reset'') ''ERROR'',
                WriteHistory, Sleep 3]\<rparr>)"
proof -
  let ?env = "sample_env\<lparr>telegram_post := \<lambda>req. Some ''connection reset''\<rparr>"
  have a: "Map.empty (msg_id text_message) = None" by simp
  have b: "fst (is_within_window ?env (msg_timestamp text_message) (sample_world None 10))"
    by (simp add: sample_defs model_defs replace_Z_def)
  have t: "full_text ?env text_message = ''hello''"
    by (simp add: sample_defs model_defs string_defs)
  have u: "image_urls_of text_message = []"
    by (simp add: sample_defs model_defs)
  have c: "choose_request (IdNum 8) (IdNum 2) (full_text ?env text_message)
        (build_media (fst (load_upload_history (sample_world None 10))) (full_text ?env text_message) 0
           (image_urls_of text_message))
       = Some (SendMessage (IdNum 8) (IdNum 2) ''hello'')"
    by (simp add: t u choose_request_def)
  have d: "telegram_post ?env (SendMessage (IdNum 8) (IdNum 2) ''hello'') = Some ''connection reset''"
    by (simp add: sample_defs)
  from failed_send_records_nothing[OF a b c d, of 0] a b c d show ?thesis by simp
qed

text \<open>
  C7: when every call to Telegram returns, a second run of \<open>main\<close> on the world the
  first run left, any time later, with the same configuration and the same answers from
  Discord, makes no call to Telegram.
\<close>

theorem second_run_sends_nothing:
  assumes ok: "\<forall>req. telegram_post env req = None" and gap: "0 \<le> gap"
  shows "posts (main env ((main env w)\<lparr>clock := clock (main env w) + gap\<rparr>)) = posts (main env w)"
proof -
  define v where "v = (main env w)\<lparr>clock := clock (main env w) + gap\<rparr>"
  have v: "posts v = posts (main env w)" "stored v = stored (main env w)"
    "clock v = clock (main env w) + gap" by (simp_all add: v_def)
  have "posts (main env v) = posts v"
  proof (cases "truthy (DISCORD_BOT_TOKEN env) \<and> truthy (TELEGRAM_BOT_TOKEN env)")
    case False
    then show ?thesis by (simp add: main_without_tokens)
  next
    case True
    let ?w0 = "log ''Starting Discord to Telegram mirror'' ''INFO'' w"
    let ?r1 = "run_mappings env (CHANNEL_MAPPING env) ?w0"
    let ?v0 = "log ''Starting Discord to Telegram mirror'' ''INFO'' v"
    from run_mappings_settles[OF ok, of "CHANNEL_MAPPING env" ?w0]
    have s: "\<forall>x \<in> set (CHANNEL_MAPPING env). \<forall>m \<in> set (fetched env (fst x)).
               settled env (stored ?r1) (clock ?r1) m" by simp
    have "stored ?v0 = stored ?r1" "clock ?r1 \<le> clock ?v0"
      using gap v by (simp_all add: main_with_tokens[OF True])
    with s have "\<forall>x \<in> set (CHANNEL_MAPPING env). \<forall>m \<in> set (fetched env (fst x)).
               settled env (stored ?v0) (clock ?v0) m"
      using settled_mono[of env "stored ?r1" "clock ?r1" _ "stored ?v0" "clock ?v0"] by auto
    from run_mappings_settled[OF this]
    have "posts (run_mappings env (CHANNEL_MAPPING env) ?v0) = posts ?v0" by simp
    then show ?thesis by (simp add: main_with_tokens[OF True])
  qed
  then show ?thesis by (simp add: v v_def[symmetric])
qed

theorem second_run_sends_nothing_witness:
  "(\<forall>req. telegram_post sample_env req = None) \<and> (0::int) \<le> 60000000
   \<and> posts (main sample_env (sample_world None 10))
       = [HttpPost (SendMessage (IdNum 8) (IdNum 2) ''hello''),
          HttpPost (SendMediaGroup (IdNum 8) (IdNum 2)
            [\<lparr>mi_type = ''photo'', mi_media = ''u0'', mi_caption = Some ''caption'',
               mi_parse_mode = Some ''Markdown''\<rparr>,
             \<lparr>mi_type = ''photo'', mi_media = ''u1'', mi_caption = None, mi_parse_mode = None\<rparr>,
             \<lparr>mi_type = ''photo'', mi_media = ''u2'', mi_caption = None, mi_parse_mode = None\<rparr>])]
   \<and> posts (main sample_env
        ((main sample_env (sample_world None 10))
           \<lparr>clock := clock (main sample_env (sample_world None 10)) + 60000000\<rparr>))
       = posts (main sample_env (sample_world None 10))"
proof -
  have a: "\<forall>req. telegram_post sample_env req = None" by (simp add: sample_defs)
  have b: "(0::int) \<le> 60000000" by simp
  have d: "posts (main sample_env (sample_world None 10))
       = [HttpPost (SendMessage (IdNum 8) (IdNum 2) ''hello''),
          HttpPost (SendMediaGroup (IdNum 8) (IdNum 2)
            [\<lparr>mi_type = ''photo'', mi_media = ''u0'', mi_caption = Some ''caption'',
               mi_parse_mode = Some ''Markdown''\<rparr>,
             \<lparr>mi_type = ''photo'', mi_media = ''u1'', mi_caption = None, mi_parse_mode = None\<rparr>,
             \<lparr>mi_type = ''photo'', mi_media = ''u2'', mi_caption = None, mi_parse_mode = None\<rparr>])]"
    by (simp add: sample_defs model_defs string_defs Let_def)
  from second_run_sends_nothing[OF a b, of "sample_world None 10"] a b d show ?thesis by blast
qed

text \<open>
  C8: when the fetch for one channel of the mapping raises a \<open>RequestException\<close>, the
  run logs the error and the warning for that channel, sends nothing for it, and goes on
  with the mappings after it; the run ends as every run does.
\<close>

theorem fetch_failure_skips_one_channel:
  assumes "truthy (DISCORD_BOT_TOKEN env)" and "truthy (TELEGRAM_BOT_TOKEN env)"
    and "CHANNEL_MAPPING env = before @ (discord_channel, tg_chat, tg_thread) # after"
    and "discord_get env discord_channel = Inl e"
  shows "main env w =
           log ''Mirror run finished.'' ''INFO''
             (run_mappings env after
                (log (''No messages found for channel '' @ discord_channel) ''WARNING''
                   (log (''API or Network Error fetching from Discord: '' @ e) ''ERROR''
                      ((log (''Processing channel '' @ discord_channel) ''INFO''
                          (run_mappings env before
                             (log ''Starting Discord to Telegram mirror'' ''INFO'' w)))
                       \<lparr>events := events (log (''Processing channel '' @ discord_channel) ''INFO''
                          (run_mappings env before
                             (log ''Starting Discord to Telegram mirror'' ''INFO'' w)))
                          @ [HttpGet discord_channel]\<rparr>))))"
  using assms
  by (simp add: main_with_tokens process_channel_failed log_def)

theorem fetch_failure_skips_one_channel_witness:
  "truthy (DISCORD_BOT_TOKEN sample_env) \<and> truthy (TELEGRAM_BOT_TOKEN sample_env)
   \<and> CHANNEL_MAPPING sample_env = [] @ (''100'', IdNum 7, IdNum 1) # [(''200'', IdNum 8, IdNum 2)]
   \<and> discord_get sample_env ''100'' = Inl ''timed out''
   \<and> main sample_env (sample_world None 10) =
        log ''Mirror run finished.'' ''INFO''
          (run_mappings sample_env [(''200'', IdNum 8, IdNum 2)]
             ((sample_world None 10)\<lparr>events :=
                [Log ''Starting Discord to Telegram mirror'' ''INFO'',
                 Log ''Processing channel 100'' ''INFO'', HttpGet ''100'',
                 Log ''API or Network Error fetching from Discord: timed out'' ''ERROR'',
                 Log ''No messages found for channel 100'' ''WARNING'']\<rparr>))
   \<and> posts (main sample_env (sample_world None 10))
       = [HttpPost (SendMessage (IdNum 8) (IdNum 2) ''hello''),
          HttpPost (SendMediaGroup (IdNum 8) (IdNum 2)
            [\<lparr>mi_type = ''photo'', mi_media = ''u0'', mi_caption = Some ''caption'',
               mi_parse_mode = Some ''Markdown''\<rparr>,
             \<lparr>mi_type = ''photo'', mi_media = ''u1'', mi_caption = None, mi_parse_mode = None\<rparr>,
             \<lparr>mi_type = ''photo'', mi_media = ''u2'', mi_caption = None, mi_parse_mode = None\<rparr>])]"
proof -
  have a: "truthy (DISCORD_BOT_TOKEN sample_env)" "truthy (TELEGRAM_BOT_TOKEN sample_env)"
    by (simp_all add: sample_defs truthy_def)
  have b: "CHANNEL_MAPPING sample_env = [] @ (''100'', IdNum 7, IdNum 1) # [(''200'', IdNum 8, IdNum 2)]"
    by (simp add: sample_defs)
  have c: "discord_get sample_env ''100'' = Inl ''timed out''"
    by (simp add: sample_defs)
  have d: "posts (main sample_env (sample_world None 10))
       = [HttpPost (SendMessage (IdNum 8) (IdNum 2) ''hello''),
          HttpPost (SendMediaGroup (IdNum 8) (IdNum 2)
            [\<lparr>mi_type = ''photo'', mi_media = ''u0'', mi_caption = Some ''caption'',
               mi_parse_mode = Some ''Markdown''\<rparr>,
             \<lparr>mi_type = ''photo'', mi_media = ''u1'', mi_caption = None, mi_parse_mode = None\<rparr>,
             \<lparr>mi_type = ''photo'', mi_media = ''u2'', mi_caption = None, mi_parse_mode = None\<rparr>])]"
    by (simp add: sample_defs model_defs string_defs Let_def)
  from fetch_failure_skips_one_channel[OF a b c, of "sample_world None 10"] a b c d
  show ?thesis by (simp add: log_def sample_world_def)
qed

text \<open>
  C9: a message whose id is a key of the history at the start of its round changes
  nothing, so nothing is sent for it; and a loop over a batch gives the same result as
  the loop over the batch without the messages whose ids were keys at its start.
\<close>

theorem known_message_is_skipped:
  assumes "history (msg_id message) \<noteq> None"
  shows "process_message env tg_chat tg_thread message (history, n, w) = (history, n, w)
       \<and> fold (process_message env tg_chat tg_thread) msgs (history, n, w)
           = fold (process_message env tg_chat tg_thread)
               (filter (\<lambda>m. msg_id m \<noteq> msg_id message) msgs) (history, n, w)"
proof -
  from assms have "{msg_id message} \<subseteq> dom history" by (auto simp: domIff)
  from loop_skips_known[OF this, of env tg_chat tg_thread msgs n w]
    process_message_known[where h=history and m=message, OF assms]
  show ?thesis by simp
qed

theorem known_message_is_skipped_witness:
  "[''42'' \<mapsto> ''2024-05-01T09:00:00''] (msg_id album_message) \<noteq> None
   \<and> posts (snd (snd (process_message sample_env (IdNum 8) (IdNum 2) album_message
        ([''42'' \<mapsto> ''2024-05-01T09:00:00''], 0,
         sample_world (Some [''42'' \<mapsto> ''2024-05-01T09:00:00'']) 10)))) = []
   \<and> posts (snd (snd (process_message sample_env (IdNum 8) (IdNum 2) album_message
        (Map.empty, 0, sample_world None 10)))) \<noteq> []"
proof -
  have a: "[''42'' \<mapsto> ''2024-05-01T09:00:00''] (msg_id album_message) \<noteq> None"
    by (simp add: sample_defs)
  have "posts (snd (snd (process_message sample_env (IdNum 8) (IdNum 2) album_message
        (Map.empty, 0, sample_world None 10)))) \<noteq> []"
    by (simp add: sample_defs model_defs string_defs Let_def)
  with known_message_is_skipped[where history="[''42'' \<mapsto> ''2024-05-01T09:00:00'']"
      and message=album_message and env=sample_env and tg_chat="IdNum 8" and tg_thread="IdNum 2"
      and n=0 and w="sample_world (Some [''42'' \<mapsto> ''2024-05-01T09:00:00'']) 10" and msgs="[]", OF a] a
  show ?thesis by (simp add: sample_world_def posts_def)
qed

text \<open>
  C10: for a message inside the window whose text body is empty and which has no image
  attachment, \<open>send_to_telegram\<close> makes no call and returns \<open>(False, [])\<close>, as it does
  after a failed call; the round writes the unchanged dictionary, so the id of the message
  is still not a key and the next run goes through the same round.
\<close>

theorem empty_message_is_never_recorded:
  assumes "history (msg_id message) = None"
    and "fst (is_within_window env (msg_timestamp message) w)"
    and "full_text env message = []"
    and "image_urls_of message = []"
  shows "send_to_telegram env tg_chat tg_thread (full_text env message) (image_urls_of message) w
           = ((False, []), w\<lparr>events := events w @ [ReadHistory]\<rparr>)
       \<and> process_message env tg_chat tg_thread message (history, n, w)
           = (history, n,
              w\<lparr>disk := Some history, clock := clock w + 3000000,
                events := events w @ [ReadHistory, WriteHistory, Sleep 3]\<rparr>)
       \<and> fst (process_message env tg_chat tg_thread message (history, n, w)) (msg_id message) = None"
proof -
  from assms(2) have recent: "recent_at env (msg_timestamp message) (clock w)"
    by (simp add: is_within_window_fst)
  have "choose_request tg_chat tg_thread (full_text env message)
      (build_media (stored w) (full_text env message) 0 (image_urls_of message)) = None"
    using assms(3,4) by (simp add: choose_request_None_iff)
  note s = send_nothing[OF this, of env]
  from process_message_attempt[where h=history and m=message and n=n, OF assms(1) recent s]
  show ?thesis
    using assms(1) by (simp add: s sleep_def save_upload_history_def REQUEST_DELAY_def)
qed

theorem empty_message_is_never_recorded_witness:
  "Map.empty (msg_id empty_message) = None
   \<and> fst (is_within_window sample_env (msg_timestamp empty_message) (sample_world None 10))
   \<and> full_text sample_env empty_message = []
   \<and> image_urls_of empty_message = []
   \<and> process_message sample_env (IdNum 8) (IdNum 2) empty_message (Map.empty, 0, sample_world None 10)
       = (Map.empty, 0,
          (sample_world None 10)\<lparr>disk := Some Map.empty, clock := clock (sample_world None 10) + 3000000,
             events := events (sample_world None 10) @ [ReadHistory, WriteHistory, Sleep 3]\<rparr>)"
proof -
  have a: "Map.empty (msg_id empty_message) = None" by simp
  have b: "fst (is_within_window sample_env (msg_timestamp empty_message) (sample_world None 10))"
    by (simp add: sample_defs model_defs replace_Z_def)
  have c: "full_text sample_env empty_message = []"
    by (simp add: sample_defs model_defs string_defs)
  have d: "image_urls_of empty_message = []"
    by (simp add: sample_defs model_defs)
  from empty_message_is_never_recorded[OF a b c d, of "IdNum 8" "IdNum 2" 0] a b c d
  show ?thesis by simp
qed

section \<open>Further properties of the forwarder\<close>

text \<open>
  When the first URL of the list is not a key of the history and the text is not empty,
  an album of two or more images carries the text as the caption of its first image and
  of no other.
\<close>

theorem album_caption_on_first_only:
  assumes "history url = None" and "text_content \<noteq> []"
    and "1 < length (build_media history text_content 0 (url # urls))"
  shows "choose_request chat_id thread_id text_content (build_media history text_content 0 (url # urls))
           = Some (SendMediaGroup chat_id thread_id (build_media history text_content 0 (url # urls)))
       \<and> mi_media (hd (build_media history text_content 0 (url # urls))) = url
       \<and> mi_caption (hd (build_media history text_content 0 (url # urls))) = Some text_content
       \<and> (\<forall>item \<in> set (tl (build_media history text_content 0 (url # urls))). mi_caption item = None)"
  using assms build_media_later_no_caption[of history text_content 0 urls]
  by (simp add: choose_request_def)

theorem album_caption_on_first_only_witness:
  "Map.empty ''u0'' = None \<and> ''caption'' \<noteq> []
   \<and> 1 < length (build_media Map.empty ''caption'' 0 [''u0'', ''u1'', ''u2''])
   \<and> choose_request (IdNum 8) (IdNum 2) ''caption'' (build_media Map.empty ''caption'' 0 [''u0'', ''u1'', ''u2''])
       = Some (SendMediaGroup (IdNum 8) (IdNum 2)
          [\<lparr>mi_type = ''photo'', mi_media = ''u0'', mi_caption = Some ''caption'',
             mi_parse_mode = Some ''Markdown''\<rparr>,
           \<lparr>mi_type = ''photo'', mi_media = ''u1'', mi_caption = None, mi_parse_mode = None\<rparr>,
           \<lparr>mi_type = ''photo'', mi_media = ''u2'', mi_caption = None, mi_parse_mode = None\<rparr>])"
  using album_caption_on_first_only[where history=Map.empty and url="''u0''"
      and text_content="''caption''" and urls="[''u1'', ''u2'']" and chat_id="IdNum 8"
      and thread_id="IdNum 2"]
  by simp

text \<open>
  A successful call of \<open>send_to_telegram\<close> reports the whole list \<open>image_urls\<close> it was
  given, and an unsuccessful one the empty list.
\<close>

theorem send_to_telegram_reports_input:
  "snd (fst (send_to_telegram env chat_id thread_id text_content image_urls w))
     = (if fst (fst (send_to_telegram env chat_id thread_id text_content image_urls w))
        then image_urls else [])"
  by (cases rule: send_to_telegram_result[of env chat_id thread_id text_content image_urls w])
    simp_all

end
